theory Spec2Isabelle
  imports Complex_Main
begin

section \<open>Forward kinematics of the excavator arm (\<open>plotting.py\<close>, \<open>draw_exc\<close>)\<close>

text \<open>
  The development embeds the function \<open>draw_exc\<close> of \<open>exc_analysis/plotting.py\<close>.
  Numbers are modelled over the reals: a finite float is a real, and the one special
  value the function can produce by itself, numpy's \<open>nan\<close>, is a value of its own.
  Rounding, overflow and the infinities of IEEE arithmetic are outside the model.

  The geometry table \<open>exc\<close> is imported by the source from the module \<open>kinematics\<close>;
  it is taken here as a parameter, a record with one field for every key that
  \<open>draw_exc\<close> reads. The state vector is a sequence of finite floats, indexed as the
  source indexes it.
\<close>

subsection \<open>Data\<close>

record geometry =
  a1 :: real
  a2 :: real
  a3 :: real
  a4 :: real
  r_cyl1 :: real
  r_cyl2 :: real
  r_cyl3 :: real
  r_o1a :: real
  r_o1b :: real
  r_o2c :: real
  r_o2d :: real
  r_ef :: real
  r_fh :: real
  r_o3f :: real
  r_o3g :: real
  r_gh :: real
  a_b12 :: real
  a_a1x1 :: real
  a_12c :: real
  a_d23 :: real
  a_dfe :: real
  a_g34 :: real
  a_23d :: real

text \<open>The exceptions the body of \<open>draw_exc\<close> can raise on finite reals:
  \<open>state[3]\<close> on a short vector, a float division by zero, and \<open>math.sqrt\<close> of a
  negative number. Python's \<open>OverflowError\<close> (from \<open>**\<close> on a float too large to
  square) and a radicand that rounding pushes below zero need the finite range and the
  rounding of floats, and are outside the model like these.\<close>

datatype error = IndexError | ZeroDivisionError | ValueError

text \<open>A float: finite, or \<open>nan\<close>.\<close>

datatype npfloat = Fin real | NaN

fun lift1 :: "(real \<Rightarrow> real) \<Rightarrow> npfloat \<Rightarrow> npfloat" where
  "lift1 f (Fin x) = Fin (f x)"
| "lift1 f NaN = NaN"

fun lift2 :: "(real \<Rightarrow> real \<Rightarrow> real) \<Rightarrow> npfloat \<Rightarrow> npfloat \<Rightarrow> npfloat" where
  "lift2 f (Fin x) (Fin y) = Fin (f x y)"
| "lift2 f NaN y = NaN"
| "lift2 f (Fin x) NaN = NaN"

text \<open>Arithmetic on floats: \<open>nan\<close> is absorbing for \<open>+\<close>, \<open>-\<close> and \<open>*\<close>.\<close>

instantiation npfloat :: "{plus, minus, times}"
begin

definition plus_npfloat :: "npfloat \<Rightarrow> npfloat \<Rightarrow> npfloat" where
  "plus_npfloat x y = lift2 (\<lambda>a b. a + b) x y"

definition minus_npfloat :: "npfloat \<Rightarrow> npfloat \<Rightarrow> npfloat" where
  "minus_npfloat x y = lift2 (\<lambda>a b. a - b) x y"

definition times_npfloat :: "npfloat \<Rightarrow> npfloat \<Rightarrow> npfloat" where
  "times_npfloat x y = lift2 (\<lambda>a b. a * b) x y"

instance ..

end

text \<open>\<open>x ** 2\<close> on a float.\<close>

definition py_sq :: "npfloat \<Rightarrow> npfloat" where
  "py_sq x = lift1 (\<lambda>a. a\<^sup>2) x"

text \<open>\<open>np.cos\<close> and \<open>np.sin\<close>.\<close>

definition np_cos :: "npfloat \<Rightarrow> npfloat" where
  "np_cos x = lift1 cos x"

definition np_sin :: "npfloat \<Rightarrow> npfloat" where
  "np_sin x = lift1 sin x"

text \<open>\<open>np.arccos\<close>: outside the closed interval from -1 to 1 numpy warns and returns
  \<open>nan\<close>; it raises nothing.\<close>

fun np_arccos :: "npfloat \<Rightarrow> npfloat" where
  "np_arccos (Fin x) = (if - 1 \<le> x \<and> x \<le> 1 then Fin (arccos x) else NaN)"
| "np_arccos NaN = NaN"

text \<open>\<open>math.sqrt\<close>: \<open>ValueError\<close> on a negative argument, \<open>nan\<close> on \<open>nan\<close>.\<close>

fun math_sqrt :: "npfloat \<Rightarrow> error + npfloat" where
  "math_sqrt (Fin x) = (if x < 0 then Inl ValueError else Inr (Fin (sqrt x)))"
| "math_sqrt NaN = Inr NaN"

text \<open>Division of Python floats: a zero divisor raises \<open>ZeroDivisionError\<close>
  whatever the dividend is; a \<open>nan\<close> divisor gives \<open>nan\<close>. The operands of the five
  divisions of \<open>draw_exc\<close> are built from the entries of \<open>exc\<close>, the entries of
  \<open>state\<close> and the result of \<open>math.sqrt\<close>, all read here as Python floats.\<close>

fun py_div :: "npfloat \<Rightarrow> npfloat \<Rightarrow> error + npfloat" where
  "py_div x (Fin d) = (if d = 0 then Inl ZeroDivisionError else Inr (lift1 (\<lambda>a. a / d) x))"
| "py_div x NaN = Inr NaN"

subsection \<open>Joint angles (lines 38 to 62)\<close>

text \<open>Every local variable of the source is a function of the geometry table and
  the state, under the name it has in the source. The quotient that a line passes to
  \<open>np.arccos\<close> has no name in the source; it is \<open>arg_v\<close> here, for the variable
  \<open>v\<close> that the line assigns.\<close>

text \<open>Boom angle.\<close>

definition r_c1 :: "geometry \<Rightarrow> real list \<Rightarrow> real" where
  "r_c1 exc state = state ! 0 + r_cyl1 exc"

definition arg_a_a1b :: "geometry \<Rightarrow> real list \<Rightarrow> error + npfloat" where
  "arg_a_a1b exc state =
    py_div (Fin ((r_o1b exc)\<^sup>2 + (r_o1a exc)\<^sup>2 - (r_c1 exc state)\<^sup>2))
           (Fin (2 * r_o1b exc * r_o1a exc))"

definition a_a1b :: "geometry \<Rightarrow> real list \<Rightarrow> error + npfloat" where
  "a_a1b exc state =
    (case arg_a_a1b exc state of
       Inl e \<Rightarrow> Inl e
     | Inr q \<Rightarrow> Inr (np_arccos q))"

definition t2 :: "geometry \<Rightarrow> real list \<Rightarrow> error + npfloat" where
  "t2 exc state =
    (case a_a1b exc state of
       Inl e \<Rightarrow> Inl e
     | Inr a \<Rightarrow> Inr (a - Fin (a_b12 exc) - Fin (a_a1x1 exc)))"

text \<open>Stick angle.\<close>

definition r_c2 :: "geometry \<Rightarrow> real list \<Rightarrow> real" where
  "r_c2 exc state = state ! 1 + r_cyl2 exc"

definition arg_a_c2d :: "geometry \<Rightarrow> real list \<Rightarrow> error + npfloat" where
  "arg_a_c2d exc state =
    py_div (Fin ((r_o2c exc)\<^sup>2 + (r_o2d exc)\<^sup>2 - (r_c2 exc state)\<^sup>2))
           (Fin (2 * r_o2c exc * r_o2d exc))"

definition a_c2d :: "geometry \<Rightarrow> real list \<Rightarrow> error + npfloat" where
  "a_c2d exc state =
    (case arg_a_c2d exc state of
       Inl e \<Rightarrow> Inl e
     | Inr q \<Rightarrow> Inr (np_arccos q))"

definition t3 :: "geometry \<Rightarrow> real list \<Rightarrow> error + npfloat" where
  "t3 exc state =
    (case a_c2d exc state of
       Inl e \<Rightarrow> Inl e
     | Inr a \<Rightarrow> Inr (Fin (3 * pi - a_12c exc) - a - Fin (a_d23 exc)))"

text \<open>Bucket angle.\<close>

definition r_c3 :: "geometry \<Rightarrow> real list \<Rightarrow> real" where
  "r_c3 exc state = state ! 2 + r_cyl3 exc"

definition arg_a_efh :: "geometry \<Rightarrow> real list \<Rightarrow> error + npfloat" where
  "arg_a_efh exc state =
    py_div (Fin ((r_ef exc)\<^sup>2 + (r_fh exc)\<^sup>2 - (r_c3 exc state)\<^sup>2))
           (Fin (2 * r_ef exc * r_fh exc))"

definition a_efh :: "geometry \<Rightarrow> real list \<Rightarrow> error + npfloat" where
  "a_efh exc state =
    (case arg_a_efh exc state of
       Inl e \<Rightarrow> Inl e
     | Inr q \<Rightarrow> Inr (np_arccos q))"

definition a_hf3 :: "geometry \<Rightarrow> real list \<Rightarrow> error + npfloat" where
  "a_hf3 exc state =
    (case a_efh exc state of
       Inl e \<Rightarrow> Inl e
     | Inr a \<Rightarrow> Inr (Fin (pi - a_dfe exc) - a))"

definition r_o3h :: "geometry \<Rightarrow> real list \<Rightarrow> error + npfloat" where
  "r_o3h exc state =
    (case a_hf3 exc state of
       Inl e \<Rightarrow> Inl e
     | Inr a \<Rightarrow>
         math_sqrt (Fin ((r_o3f exc)\<^sup>2 + (r_fh exc)\<^sup>2)
                    - Fin (2 * r_o3f exc * r_fh exc) * np_cos a))"

definition arg_a_f3h :: "geometry \<Rightarrow> real list \<Rightarrow> error + npfloat" where
  "arg_a_f3h exc state =
    (case r_o3h exc state of
       Inl e \<Rightarrow> Inl e
     | Inr r \<Rightarrow>
         py_div (py_sq r + Fin ((r_o3f exc)\<^sup>2) - Fin ((r_fh exc)\<^sup>2))
                (Fin 2 * r * Fin (r_o3f exc)))"

definition a_f3h :: "geometry \<Rightarrow> real list \<Rightarrow> error + npfloat" where
  "a_f3h exc state =
    (case arg_a_f3h exc state of
       Inl e \<Rightarrow> Inl e
     | Inr q \<Rightarrow> Inr (np_arccos q))"

definition arg_a_h3g :: "geometry \<Rightarrow> real list \<Rightarrow> error + npfloat" where
  "arg_a_h3g exc state =
    (case r_o3h exc state of
       Inl e \<Rightarrow> Inl e
     | Inr r \<Rightarrow>
         py_div (py_sq r + Fin ((r_o3g exc)\<^sup>2) - Fin ((r_gh exc)\<^sup>2))
                (Fin 2 * r * Fin (r_o3g exc)))"

definition a_h3g :: "geometry \<Rightarrow> real list \<Rightarrow> error + npfloat" where
  "a_h3g exc state =
    (case arg_a_h3g exc state of
       Inl e \<Rightarrow> Inl e
     | Inr q \<Rightarrow> Inr (np_arccos q))"

definition t4 :: "geometry \<Rightarrow> real list \<Rightarrow> error + npfloat" where
  "t4 exc state =
    (case a_f3h exc state of
       Inl e \<Rightarrow> Inl e
     | Inr f \<Rightarrow>
         (case a_h3g exc state of
            Inl e \<Rightarrow> Inl e
          | Inr g \<Rightarrow> Inr (Fin (3 * pi) - f - g - Fin (a_g34 exc) - Fin (a_23d exc))))"

text \<open>The four joint angles in the order the source computes them: \<open>t1 = state[3]\<close>
  comes first and raises \<open>IndexError\<close> on a vector of fewer than four entries; then the
  boom, stick and bucket blocks run, and the first exception ends the call.\<close>

definition joint_angles ::
  "geometry \<Rightarrow> real list \<Rightarrow> error + (real \<times> npfloat \<times> npfloat \<times> npfloat)" where
  "joint_angles exc state =
    (if length state < 4 then Inl IndexError
     else
       (case t2 exc state of
          Inl e \<Rightarrow> Inl e
        | Inr v2 \<Rightarrow>
            (case t3 exc state of
               Inl e \<Rightarrow> Inl e
             | Inr v3 \<Rightarrow>
                 (case t4 exc state of
                    Inl e \<Rightarrow> Inl e
                  | Inr v4 \<Rightarrow> Inr (state ! 3, v2, v3, v4)))))"

subsection \<open>Positions (lines 64 to 91)\<close>

type_synonym point = "npfloat \<times> npfloat \<times> npfloat"

definition link_points :: "geometry \<Rightarrow> real \<Rightarrow> real \<Rightarrow> npfloat \<Rightarrow> npfloat \<Rightarrow> npfloat \<Rightarrow> point list" where
  "link_points exc gos q1 q2 q3 q4 =
    (let c1 = Fin (cos q1);
         c2 = np_cos q2;
         c234 = np_cos (q2 + q3 + q4);
         c23 = np_cos (q2 + q3);
         s1 = Fin (sin q1);
         s2 = np_sin q2;
         s234 = np_sin (q2 + q3 + q4);
         s23 = np_sin (q2 + q3);
         l1 = Fin (a1 exc);
         l2 = Fin (a2 exc);
         l3 = Fin (a3 exc);
         l4 = Fin (a4 exc);
         g = Fin gos;
         gnd = (Fin 0, Fin 0, Fin 0);
         base = (Fin 0, Fin 0, g);
         o1 = (l1 * c1, l1 * s1, g);
         o2 = ((l2 * c2 + l1) * c1,
               (l2 * c2 + l1) * s1,
               l2 * s2 + g);
         o3 = ((l2 * c2 + l3 * c23 + l1) * c1,
               (l2 * c2 + l3 * c23 + l1) * s1,
               g + l2 * s2 + l3 * s23);
         o4 = ((l4 * c234 + l3 * c23 + l2 * c2 + l1) * c1,
               (l4 * c234 + l3 * c23 + l2 * c2 + l1) * s1,
               g + l2 * s2 + l3 * s23 + l4 * s234)
     in [gnd, base, o1, o2, o3, o4])"

definition exc_points :: "geometry \<Rightarrow> real list \<Rightarrow> real \<Rightarrow> error + point list" where
  "exc_points exc state gos =
    (case joint_angles exc state of
       Inl e \<Rightarrow> Inl e
     | Inr (q1, q2, q3, q4) \<Rightarrow> Inr (link_points exc gos q1 q2 q3 q4))"

subsection \<open>Drawing (lines 93 to 112)\<close>

text \<open>\<open>zip(p, q)\<close> of two points: the pair of x values, of y values and of z values.\<close>

type_synonym line3d = "(npfloat \<times> npfloat) \<times> (npfloat \<times> npfloat) \<times> (npfloat \<times> npfloat)"

fun zip_points :: "point \<Rightarrow> point \<Rightarrow> line3d" where
  "zip_points (px, py, pz) (qx, qy, qz) = ((px, qx), (py, qy), (pz, qz))"

text \<open>The lines \<open>l0\<close> to \<open>l4\<close>, built from the six points in order.\<close>

fun exc_lines :: "point list \<Rightarrow> line3d list" where
  "exc_lines [gnd, base, o1, o2, o3, o4] =
     [zip_points gnd base, zip_points base o1, zip_points o1 o2,
      zip_points o2 o3, zip_points o3 o4]"
| "exc_lines ps = []"

text \<open>The axis object: the lines plotted on it so far, each with its line width,
  the three axis limits and the view angles (azimuth, elevation). The parameter
  \<open>rotate\<close> of the source is \<open>rotate_view\<close> here.\<close>

record axes3d =
  plotted :: "(line3d \<times> int) list"
  xlim3d :: "(real \<times> real) option"
  ylim3d :: "(real \<times> real) option"
  zlim3d :: "(real \<times> real) option"
  view :: "(real \<times> real) option"

definition ax_plot :: "int \<Rightarrow> axes3d \<Rightarrow> line3d \<Rightarrow> axes3d" where
  "ax_plot lw ax seg = ax\<lparr>plotted := plotted ax @ [(seg, lw)]\<rparr>"

definition draw_exc ::
  "axes3d \<Rightarrow> geometry \<Rightarrow> real list \<Rightarrow> int \<Rightarrow> bool \<Rightarrow> bool \<Rightarrow> real \<Rightarrow> error + axes3d" where
  "draw_exc ax exc state lw lock_axes rotate_view gnd_offset =
    (case exc_points exc state gnd_offset of
       Inl e \<Rightarrow> Inl e
     | Inr ps \<Rightarrow>
         (let ax1 = foldl (ax_plot lw) ax (exc_lines ps);
              ax2 = (if lock_axes
                     then ax1\<lparr>xlim3d := Some (0, 80), ylim3d := Some (0, 80), zlim3d := Some (0, 50)\<rparr>
                     else ax1);
              ax3 = (if rotate_view then ax2\<lparr>view := Some (- 137, 35)\<rparr> else ax2)
          in Inr ax3))"

text \<open>The call \<open>draw_exc(ax, state)\<close>, with every keyword parameter at the default of
  the signature: \<open>lw=2\<close>, \<open>lock_axes=True\<close>, \<open>rotate=True\<close>, \<open>gnd_offset=17.1\<close>.\<close>

definition draw_exc_default :: "axes3d \<Rightarrow> geometry \<Rightarrow> real list \<Rightarrow> error + axes3d" where
  "draw_exc_default ax exc state = draw_exc ax exc state 2 True True (171 / 10)"

section \<open>The formulas of the specification\<close>

text \<open>
  The definitions of this section follow the words of the specification, not the
  source; the theorems compare them with the functions above.
\<close>

text \<open>The argument of the inverse law of cosines, for fixed sides \<open>s1\<close>, \<open>s2\<close> and
  the variable side \<open>s3\<close>, and the enclosed angle it gives.\<close>

definition law_arg :: "real \<Rightarrow> real \<Rightarrow> real \<Rightarrow> real" where
  "law_arg s1 s2 s3 = (s1\<^sup>2 + s2\<^sup>2 - s3\<^sup>2) / (2 * s1 * s2)"

definition enclosed_angle :: "real \<Rightarrow> real \<Rightarrow> real \<Rightarrow> real" where
  "enclosed_angle s1 s2 s3 = arccos (law_arg s1 s2 s3)"

text \<open>The law of cosines itself: the side opposite the angle \<open>g\<close> enclosed by the
  sides \<open>s1\<close> and \<open>s2\<close>.\<close>

definition opposite_side :: "real \<Rightarrow> real \<Rightarrow> real \<Rightarrow> real" where
  "opposite_side s1 s2 g = sqrt (s1\<^sup>2 + s2\<^sup>2 - 2 * s1 * s2 * cos g)"

text \<open>A triangle that can be solved: no side of the divisor is zero and the argument
  of the arccos lies in the closed interval from -1 to 1.\<close>

definition solvable :: "real \<Rightarrow> real \<Rightarrow> real \<Rightarrow> bool" where
  "solvable s1 s2 s3 = (s1 \<noteq> 0 \<and> s2 \<noteq> 0 \<and> - 1 \<le> law_arg s1 s2 s3 \<and> law_arg s1 s2 s3 \<le> 1)"

text \<open>The domain of the arccos, boundaries included.\<close>

definition in_domain :: "npfloat \<Rightarrow> bool" where
  "in_domain q = (case q of Fin x \<Rightarrow> - 1 \<le> x \<and> x \<le> 1 | NaN \<Rightarrow> False)"

text \<open>The two-stage solve of the bucket joint, for the cylinder extension \<open>ext\<close>:
  the supplementary angle of the auxiliary triangle, the auxiliary diagonal, and the
  bucket angle.\<close>

definition spec_a_hf3 :: "geometry \<Rightarrow> real \<Rightarrow> real" where
  "spec_a_hf3 exc ext = pi - a_dfe exc - enclosed_angle (r_ef exc) (r_fh exc) (ext + r_cyl3 exc)"

definition spec_r_o3h :: "geometry \<Rightarrow> real \<Rightarrow> real" where
  "spec_r_o3h exc ext = opposite_side (r_o3f exc) (r_fh exc) (spec_a_hf3 exc ext)"

definition spec_t4 :: "geometry \<Rightarrow> real \<Rightarrow> real" where
  "spec_t4 exc ext =
     3 * pi - enclosed_angle (spec_r_o3h exc ext) (r_o3f exc) (r_fh exc)
            - enclosed_angle (spec_r_o3h exc ext) (r_o3g exc) (r_gh exc)
            - a_g34 exc - a_23d exc"

text \<open>Position chaining. \<open>ls\<close> are the link lengths \<open>a\<^sub>1, a\<^sub>2, \<dots>\<close> and \<open>js\<close> the joint
  angles \<open>t\<^sub>2, t\<^sub>3, \<dots>\<close>; \<open>theta js k\<close> is the cumulative angle of link \<open>k\<close>, the sum of
  the joint angles 2 to \<open>k\<close> (the empty sum for the first link).\<close>

definition theta :: "real list \<Rightarrow> nat \<Rightarrow> real" where
  "theta js k = sum_list (take (k - 1) js)"

definition planar_reach :: "real list \<Rightarrow> real list \<Rightarrow> nat \<Rightarrow> real" where
  "planar_reach ls js k = (\<Sum>i = 1..k. ls ! (i - 1) * cos (theta js i))"

definition planar_rise :: "real list \<Rightarrow> real list \<Rightarrow> nat \<Rightarrow> real" where
  "planar_rise ls js k = (\<Sum>i = 1..k. ls ! (i - 1) * sin (theta js i))"

definition link_end :: "real list \<Rightarrow> real list \<Rightarrow> real \<Rightarrow> real \<Rightarrow> nat \<Rightarrow> point" where
  "link_end ls js swing gos k =
    (Fin (planar_reach ls js k * cos swing),
     Fin (planar_reach ls js k * sin swing),
     Fin (gos + planar_rise ls js k))"

text \<open>The Euclidean length of the segment between two points.\<close>

fun seg_len :: "point \<Rightarrow> point \<Rightarrow> npfloat" where
  "seg_len (px, py, pz) (qx, qy, qz) =
     lift1 sqrt (py_sq (qx - px) + py_sq (qy - py) + py_sq (qz - pz))"

text \<open>The rotation of a point by the angle \<open>d\<close> about the vertical axis through the
  origin.\<close>

fun rot_z :: "real \<Rightarrow> point \<Rightarrow> point" where
  "rot_z d (x, y, z) =
     (x * Fin (cos d) - y * Fin (sin d), x * Fin (sin d) + y * Fin (cos d), z)"

section \<open>A concrete geometry\<close>

text \<open>
  A small geometry table on which every quantity evaluates in closed form; it is the
  concrete input of the examples below. With all four state entries zero the boom and
  stick triangles are right-angled (sides 3, 4, 5) and the bucket triangles are flat, so
  that three of the five arccos arguments are exactly 1.
\<close>

definition exc_demo :: geometry where
  "exc_demo = \<lparr>a1 = 1, a2 = 2, a3 = 3, a4 = 4,
     r_cyl1 = 5, r_cyl2 = 5, r_cyl3 = 1/2,
     r_o1a = 4, r_o1b = 3, r_o2c = 3, r_o2d = 4,
     r_ef = 1, r_fh = 1/2, r_o3f = 1/2, r_o3g = 1/2, r_gh = 1/2,
     a_b12 = 0, a_a1x1 = 0, a_12c = 2 * pi, a_d23 = pi, a_dfe = 0,
     a_g34 = pi, a_23d = 2 * pi\<rparr>"

text \<open>The same table with the fixed angle \<open>a_dfe\<close> set to \<open>\<pi>\<close>: at the zero state
  the auxiliary diagonal \<open>r_o3h\<close> of the bucket solve has length zero.\<close>

definition exc_flat :: geometry where
  "exc_flat = exc_demo\<lparr>a_dfe := pi\<rparr>"

section \<open>Basic facts\<close>

subsection \<open>Float arithmetic\<close>

lemma fin_arith [simp]:
  "Fin a + Fin b = Fin (a + b)"
  "Fin a - Fin b = Fin (a - b)"
  "Fin a * Fin b = Fin (a * b)"
  by (simp_all add: plus_npfloat_def minus_npfloat_def times_npfloat_def)

lemma nan_arith [simp]:
  "NaN + x = NaN" "x + NaN = NaN"
  "NaN - x = NaN" "x - NaN = NaN"
  "NaN * x = NaN" "x * NaN = NaN"
  by (cases x; simp add: plus_npfloat_def minus_npfloat_def times_npfloat_def)+

lemma np_trig [simp]:
  "np_cos (Fin x) = Fin (cos x)" "np_sin (Fin x) = Fin (sin x)"
  "np_cos NaN = NaN" "np_sin NaN = NaN"
  "py_sq (Fin x) = Fin (x\<^sup>2)" "py_sq NaN = NaN"
  by (simp_all add: np_cos_def np_sin_def py_sq_def)

lemma sub_fin_nan_iff [simp]: "x - Fin c = NaN \<longleftrightarrow> x = NaN" "Fin c - x = NaN \<longleftrightarrow> x = NaN"
  "x + Fin c = NaN \<longleftrightarrow> x = NaN" "Fin c + x = NaN \<longleftrightarrow> x = NaN"
  "x * Fin c = NaN \<longleftrightarrow> x = NaN" "Fin c * x = NaN \<longleftrightarrow> x = NaN"
  by (cases x; simp)+

lemma nan_binop_iff [simp]:
  "x + y = NaN \<longleftrightarrow> x = NaN \<or> y = NaN"
  "x - y = NaN \<longleftrightarrow> x = NaN \<or> y = NaN"
  "x * y = NaN \<longleftrightarrow> x = NaN \<or> y = NaN"
  by (cases x; cases y; simp)+

lemma np_trig_nan_iff [simp]: "np_cos x = NaN \<longleftrightarrow> x = NaN" "np_sin x = NaN \<longleftrightarrow> x = NaN"
  "py_sq x = NaN \<longleftrightarrow> x = NaN"
  by (cases x; simp)+

lemma np_arccos_nan_iff: "np_arccos q = NaN \<longleftrightarrow> \<not> in_domain q"
  by (cases q) (simp_all add: in_domain_def)


subsection \<open>The joint angles in terms of the arccos arguments\<close>

lemma t2_cases:
  "arg_a_a1b exc state = Inr q \<Longrightarrow>
     t2 exc state = Inr (np_arccos q - Fin (a_b12 exc) - Fin (a_a1x1 exc))"
  by (simp add: t2_def a_a1b_def)

lemma t3_cases:
  "arg_a_c2d exc state = Inr q \<Longrightarrow>
     t3 exc state = Inr (Fin (3 * pi - a_12c exc) - np_arccos q - Fin (a_d23 exc))"
  by (simp add: t3_def a_c2d_def)

lemma t4_cases:
  "arg_a_f3h exc state = Inr q \<Longrightarrow> arg_a_h3g exc state = Inr q' \<Longrightarrow>
     t4 exc state = Inr (Fin (3 * pi) - np_arccos q - np_arccos q' - Fin (a_g34 exc) - Fin (a_23d exc))"
  by (simp add: t4_def a_f3h_def a_h3g_def)

lemma joint_angles_components:
  "joint_angles exc state = Inr (q1, q2, q3, q4) \<Longrightarrow>
     q1 = state ! 3 \<and> t2 exc state = Inr q2 \<and> t3 exc state = Inr q3 \<and> t4 exc state = Inr q4"
  by (auto simp add: joint_angles_def split: if_splits sum.splits)


subsection \<open>Each angle reads one entry of the state\<close>

lemma t2_only_boom: "state ! 0 = state' ! 0 \<Longrightarrow> t2 exc state = t2 exc state'"
  by (simp add: t2_def a_a1b_def arg_a_a1b_def r_c1_def)

lemma t3_only_stick: "state ! 1 = state' ! 1 \<Longrightarrow> t3 exc state = t3 exc state'"
  by (simp add: t3_def a_c2d_def arg_a_c2d_def r_c2_def)

lemma t4_only_bucket: "state ! 2 = state' ! 2 \<Longrightarrow> t4 exc state = t4 exc state'"
  by (simp add: t4_def a_f3h_def a_h3g_def arg_a_f3h_def arg_a_h3g_def r_o3h_def a_hf3_def
      a_efh_def arg_a_efh_def r_c3_def)

lemma t2_swing: "t2 exc (state[3 := w]) = t2 exc state"
  by (simp add: t2_def a_a1b_def arg_a_a1b_def r_c1_def)

lemma t3_swing: "t3 exc (state[3 := w]) = t3 exc state"
  by (simp add: t3_def a_c2d_def arg_a_c2d_def r_c2_def)

lemma t4_swing: "t4 exc (state[3 := w]) = t4 exc state"
  by (simp add: t4_def a_f3h_def a_h3g_def arg_a_f3h_def arg_a_h3g_def r_o3h_def a_hf3_def
      a_efh_def arg_a_efh_def r_c3_def)

lemma joint_angles_swing:
  "joint_angles exc state = Inr (q1, q2, q3, q4) \<Longrightarrow>
   joint_angles exc (state[3 := state ! 3 + d]) = Inr (q1 + d, q2, q3, q4)"
  by (auto simp add: joint_angles_def t2_swing t3_swing t4_swing split: if_splits sum.splits)


subsection \<open>The shape of the result\<close>

lemma link_points_shape:
  "\<exists>o1 o2 o3 o4. link_points exc gos q1 q2 q3 q4 =
     [(Fin 0, Fin 0, Fin 0), (Fin 0, Fin 0, Fin gos), o1, o2, o3, o4]"
  by (simp add: link_points_def Let_def)

lemma link_points_fin:
  "link_points exc gos q1 (Fin q2) (Fin q3) (Fin q4) =
    [(Fin 0, Fin 0, Fin 0),
     (Fin 0, Fin 0, Fin gos),
     (Fin (a1 exc * cos q1), Fin (a1 exc * sin q1), Fin gos),
     (Fin ((a2 exc * cos q2 + a1 exc) * cos q1),
      Fin ((a2 exc * cos q2 + a1 exc) * sin q1),
      Fin (a2 exc * sin q2 + gos)),
     (Fin ((a2 exc * cos q2 + a3 exc * cos (q2 + q3) + a1 exc) * cos q1),
      Fin ((a2 exc * cos q2 + a3 exc * cos (q2 + q3) + a1 exc) * sin q1),
      Fin (gos + a2 exc * sin q2 + a3 exc * sin (q2 + q3))),
     (Fin ((a4 exc * cos (q2 + q3 + q4) + a3 exc * cos (q2 + q3) + a2 exc * cos q2 + a1 exc) * cos q1),
      Fin ((a4 exc * cos (q2 + q3 + q4) + a3 exc * cos (q2 + q3) + a2 exc * cos q2 + a1 exc) * sin q1),
      Fin (gos + a2 exc * sin q2 + a3 exc * sin (q2 + q3) + a4 exc * sin (q2 + q3 + q4)))]"
  by (simp add: link_points_def Let_def)

lemma link_points_nan:
  "q2 = NaN \<Longrightarrow> link_points exc gos q1 q2 q3 q4 ! 3 = (NaN, NaN, NaN)"
  "q2 = NaN \<or> q3 = NaN \<Longrightarrow> link_points exc gos q1 q2 q3 q4 ! 4 = (NaN, NaN, NaN)"
  "q2 = NaN \<or> q3 = NaN \<or> q4 = NaN \<Longrightarrow> link_points exc gos q1 q2 q3 q4 ! 5 = (NaN, NaN, NaN)"
  by (auto simp add: link_points_def Let_def)

lemma exc_points_shape:
  assumes "exc_points exc state gos = Inr ps"
  shows "\<exists>o1 o2 o3 o4. ps = [(Fin 0, Fin 0, Fin 0), (Fin 0, Fin 0, Fin gos), o1, o2, o3, o4]"
proof -
  from assms obtain q1 q2 q3 q4 where "ps = link_points exc gos q1 q2 q3 q4"
    by (auto simp add: exc_points_def split: sum.splits)
  then show ?thesis using link_points_shape [of exc gos q1 q2 q3 q4] by simp
qed

lemma foldl_ax_plot: "plotted (foldl (ax_plot lw) ax ls) = plotted ax @ map (\<lambda>l. (l, lw)) ls"
  by (induction ls arbitrary: ax) (simp_all add: ax_plot_def)


lemma draw_exc_plotted:
  assumes "exc_points exc state gos = Inr ps"
  shows "\<exists>ax'. draw_exc ax exc state lw lock_axes rotate_view gos = Inr ax'
             \<and> plotted ax' = plotted ax @ map (\<lambda>l. (l, lw)) (exc_lines ps)"
  by (simp add: draw_exc_def assms Let_def foldl_ax_plot)

subsection \<open>The concrete geometry evaluated\<close>

lemma demo_args:
  "arg_a_a1b exc_demo [0,0,0,0] = Inr (Fin 0)"
  "arg_a_c2d exc_demo [0,0,0,0] = Inr (Fin 0)"
  "arg_a_efh exc_demo [0,0,0,0] = Inr (Fin 1)"
  by (simp_all add: arg_a_a1b_def arg_a_c2d_def arg_a_efh_def r_c1_def r_c2_def r_c3_def exc_demo_def power2_eq_square)

lemma demo_t2: "t2 exc_demo [0,0,0,0] = Inr (Fin (pi/2))"
  by (simp add: t2_def a_a1b_def demo_args) (simp add: exc_demo_def)

lemma demo_t3: "t3 exc_demo [0,0,0,0] = Inr (Fin (- (pi/2)))"
  by (simp add: t3_def a_c2d_def demo_args) (simp add: exc_demo_def)

lemma demo_r_o3h: "r_o3h exc_demo [0,0,0,0] = Inr (Fin 1)"
  by (simp add: r_o3h_def a_hf3_def a_efh_def demo_args) (simp add: exc_demo_def power2_eq_square)

lemma demo_args2:
  "arg_a_f3h exc_demo [0,0,0,0] = Inr (Fin 1)"
  "arg_a_h3g exc_demo [0,0,0,0] = Inr (Fin 1)"
  by (simp_all add: arg_a_f3h_def arg_a_h3g_def demo_r_o3h) (simp_all add: exc_demo_def power2_eq_square)

lemma demo_t4: "t4 exc_demo [0,0,0,0] = Inr (Fin 0)"
  by (simp add: t4_def a_f3h_def a_h3g_def demo_args2) (simp add: exc_demo_def)

lemma demo_angles: "joint_angles exc_demo [0,0,0,0] = Inr (0, Fin (pi/2), Fin (- (pi/2)), Fin 0)"
  by (simp add: joint_angles_def demo_t2 demo_t3 demo_t4)

lemma demo_link_points: "link_points exc_demo (171/10) 0 (Fin (pi/2)) (Fin (- (pi/2))) (Fin 0) =
   [(Fin 0, Fin 0, Fin 0), (Fin 0, Fin 0, Fin (171/10)), (Fin 1, Fin 0, Fin (171/10)),
        (Fin 1, Fin 0, Fin (191/10)), (Fin 4, Fin 0, Fin (191/10)), (Fin 8, Fin 0, Fin (191/10))]"
  by (simp add: link_points_def Let_def) (simp add: exc_demo_def)

lemma demo_points: "exc_points exc_demo [0,0,0,0] (171/10) =
   Inr [(Fin 0, Fin 0, Fin 0), (Fin 0, Fin 0, Fin (171/10)), (Fin 1, Fin 0, Fin (171/10)),
        (Fin 1, Fin 0, Fin (191/10)), (Fin 4, Fin 0, Fin (191/10)), (Fin 8, Fin 0, Fin (191/10))]"
  by (simp add: exc_points_def demo_angles demo_link_points)


text \<open>The same geometry with the boom cylinder extended by 5: the arccos argument of
  the boom triangle is \<open>-25/8\<close>, outside the domain.\<close>

lemma demo_nan_arg: "arg_a_a1b exc_demo [5, 0, 0, 0] = Inr (Fin (- (25 / 8)))"
  by (simp add: arg_a_a1b_def r_c1_def exc_demo_def)

lemma demo_nan_angles: "joint_angles exc_demo [5, 0, 0, 0] = Inr (0, NaN, Fin (- (pi / 2)), Fin 0)"
proof -
  have q2: "t2 exc_demo [5, 0, 0, 0] = Inr NaN"
    by (simp add: t2_def a_a1b_def demo_nan_arg)
  have q3: "t3 exc_demo [5, 0, 0, 0] = Inr (Fin (- (pi / 2)))"
    using t3_only_stick [of "[5, 0, 0, 0]" "[0, 0, 0, 0]" exc_demo] demo_t3 by simp
  have q4: "t4 exc_demo [5, 0, 0, 0] = Inr (Fin 0)"
    using t4_only_bucket [of "[5, 0, 0, 0]" "[0, 0, 0, 0]" exc_demo] demo_t4 by simp
  show ?thesis
    by (simp add: joint_angles_def q2 q3 q4)
qed

lemma demo_nan_points:
  "exc_points exc_demo [5, 0, 0, 0] (171 / 10) =
       Inr [(Fin 0, Fin 0, Fin 0), (Fin 0, Fin 0, Fin (171 / 10)), (Fin 1, Fin 0, Fin (171 / 10)),
            (NaN, NaN, NaN), (NaN, NaN, NaN), (NaN, NaN, NaN)]"
  by (simp add: exc_points_def demo_nan_angles link_points_def Let_def) (simp add: exc_demo_def)


text \<open>All three cylinders extended past their triangles: every arccos argument is
  outside the domain or \<open>nan\<close>.\<close>

lemma demo_all_nan_args:
  "arg_a_a1b exc_demo [5, 5, 5, 0] = Inr (Fin (- (25 / 8)))"
  "arg_a_c2d exc_demo [5, 5, 5, 0] = Inr (Fin (- (25 / 8)))"
  "arg_a_efh exc_demo [5, 5, 5, 0] = Inr (Fin (- 29))"
  by (simp_all add: arg_a_a1b_def arg_a_c2d_def arg_a_efh_def r_c1_def r_c2_def r_c3_def
      exc_demo_def power2_eq_square)

lemma demo_all_nan_r_o3h: "r_o3h exc_demo [5, 5, 5, 0] = Inr NaN"
  by (simp add: r_o3h_def a_hf3_def a_efh_def demo_all_nan_args)

lemma demo_all_nan_args2:
  "arg_a_f3h exc_demo [5, 5, 5, 0] = Inr NaN"
  "arg_a_h3g exc_demo [5, 5, 5, 0] = Inr NaN"
  by (simp_all add: arg_a_f3h_def arg_a_h3g_def demo_all_nan_r_o3h)

lemma demo_all_nan_angles: "joint_angles exc_demo [5, 5, 5, 0] = Inr (0, NaN, NaN, NaN)"
  by (simp add: joint_angles_def t2_cases [OF demo_all_nan_args(1)]
      t3_cases [OF demo_all_nan_args(2)] t4_cases [OF demo_all_nan_args2])

lemma demo_all_nan_points:
  "exc_points exc_demo [5, 5, 5, 0] (171 / 10) =
       Inr [(Fin 0, Fin 0, Fin 0), (Fin 0, Fin 0, Fin (171 / 10)), (Fin 1, Fin 0, Fin (171 / 10)),
            (NaN, NaN, NaN), (NaN, NaN, NaN), (NaN, NaN, NaN)]"
  by (simp add: exc_points_def demo_all_nan_angles link_points_def Let_def) (simp add: exc_demo_def)

text \<open>The table with the flat bucket triangle at the zero state: the three arccos
  arguments that get computed are 0, 0 and 1, the diagonal is zero, and the division of
  line 60 raises.\<close>

lemma flat_args:
  "arg_a_a1b exc_flat [0, 0, 0, 0] = Inr (Fin 0)"
  "arg_a_c2d exc_flat [0, 0, 0, 0] = Inr (Fin 0)"
  "arg_a_efh exc_flat [0, 0, 0, 0] = Inr (Fin 1)"
  by (simp_all add: arg_a_a1b_def arg_a_c2d_def arg_a_efh_def r_c1_def r_c2_def r_c3_def
      exc_flat_def exc_demo_def power2_eq_square)

lemma flat_r_o3h: "r_o3h exc_flat [0, 0, 0, 0] = Inr (Fin 0)"
  by (simp add: r_o3h_def a_hf3_def a_efh_def flat_args)
     (simp add: exc_flat_def exc_demo_def power2_eq_square)

lemma flat_arg_a_f3h: "arg_a_f3h exc_flat [0, 0, 0, 0] = Inl ZeroDivisionError"
  by (simp add: arg_a_f3h_def flat_r_o3h)

lemma flat_points: "exc_points exc_flat [0, 0, 0, 0] (171 / 10) = Inl ZeroDivisionError"
  by (simp add: exc_points_def joint_angles_def t2_cases [OF flat_args(1)]
      t3_cases [OF flat_args(2)] t4_def a_f3h_def flat_arg_a_f3h)

text \<open>Two more states: the swing turned by 1, and the boom cylinder extended by 2.\<close>

lemma demo_angles_swing:
  "joint_angles exc_demo [0, 0, 0, 1] = Inr (1, Fin (pi / 2), Fin (- (pi / 2)), Fin 0)"
  using joint_angles_swing [OF demo_angles, of 1] by simp

lemma demo_angles_boom:
  "joint_angles exc_demo [2, 0, 0, 0] = Inr (0, Fin pi, Fin (- (pi / 2)), Fin 0)"
proof -
  have q2: "t2 exc_demo [2, 0, 0, 0] = Inr (Fin pi)"
    by (simp add: t2_def a_a1b_def arg_a_a1b_def r_c1_def exc_demo_def)
  have q3: "t3 exc_demo [2, 0, 0, 0] = Inr (Fin (- (pi / 2)))"
    using t3_only_stick [of "[2, 0, 0, 0]" "[0, 0, 0, 0]" exc_demo] demo_t3 by simp
  have q4: "t4 exc_demo [2, 0, 0, 0] = Inr (Fin 0)"
    using t4_only_bucket [of "[2, 0, 0, 0]" "[0, 0, 0, 0]" exc_demo] demo_t4 by simp
  show ?thesis
    by (simp add: joint_angles_def q2 q3 q4)
qed


lemma demo_solvable:
  "solvable (r_o1b exc_demo) (r_o1a exc_demo) ([0, 0, 0, 0] ! 0 + r_cyl1 exc_demo)"
  "solvable (r_o2c exc_demo) (r_o2d exc_demo) ([0, 0, 0, 0] ! 1 + r_cyl2 exc_demo)"
  "solvable (r_ef exc_demo) (r_fh exc_demo) ([0, 0, 0, 0] ! 2 + r_cyl3 exc_demo)"
  by (simp_all add: solvable_def law_arg_def exc_demo_def power2_eq_square)

lemma demo_spec_r_o3h: "spec_r_o3h exc_demo ([0, 0, 0, 0] ! 2) = 1"
  by (simp add: spec_r_o3h_def opposite_side_def spec_a_hf3_def enclosed_angle_def law_arg_def
      exc_demo_def power2_eq_square)

lemma demo_solvable2:
  "solvable (spec_r_o3h exc_demo ([0, 0, 0, 0] ! 2)) (r_o3f exc_demo) (r_fh exc_demo)"
  "solvable (spec_r_o3h exc_demo ([0, 0, 0, 0] ! 2)) (r_o3g exc_demo) (r_gh exc_demo)"
  unfolding demo_spec_r_o3h
  by (simp_all add: solvable_def law_arg_def exc_demo_def power2_eq_square)


section \<open>Domain of the arccos (claim C1)\<close>

lemma bucket_nan_chain:
  assumes "arg_a_efh exc state = Inr x3" "\<not> in_domain x3" "arg_a_f3h exc state = Inr x4"
  shows "x4 = NaN"
proof -
  have "a_efh exc state = Inr NaN"
    using assms(1,2) by (simp add: a_efh_def np_arccos_nan_iff)
  then have "r_o3h exc state = Inr NaN"
    by (simp add: r_o3h_def a_hf3_def)
  then show ?thesis using assms(3) by (simp add: arg_a_f3h_def)
qed

text \<open>What a returned angle says about the lines before it.\<close>

lemma t2_returned:
  assumes "t2 exc state = Inr q"
  shows "\<exists>x. arg_a_a1b exc state = Inr x
           \<and> q = np_arccos x - Fin (a_b12 exc) - Fin (a_a1x1 exc)"
  using assms by (auto simp add: t2_def a_a1b_def split: sum.splits)

lemma t3_returned:
  assumes "t3 exc state = Inr q"
  shows "\<exists>x. arg_a_c2d exc state = Inr x
           \<and> q = Fin (3 * pi - a_12c exc) - np_arccos x - Fin (a_d23 exc)"
  using assms by (auto simp add: t3_def a_c2d_def split: sum.splits)

lemma arg_a_f3h_returned:
  assumes "arg_a_f3h exc state = Inr x4"
  shows "\<exists>x3. arg_a_efh exc state = Inr x3"
  using assms
  by (auto simp add: arg_a_f3h_def r_o3h_def a_hf3_def a_efh_def split: sum.splits)

lemma t4_returned:
  assumes "t4 exc state = Inr q"
  shows "\<exists>x3 x4 x5. arg_a_efh exc state = Inr x3 \<and> arg_a_f3h exc state = Inr x4
           \<and> arg_a_h3g exc state = Inr x5
           \<and> q = Fin (3 * pi) - np_arccos x4 - np_arccos x5 - Fin (a_g34 exc) - Fin (a_23d exc)"
proof -
  from assms obtain x4 x5 where
    x4: "arg_a_f3h exc state = Inr x4" and x5: "arg_a_h3g exc state = Inr x5"
    and q: "q = Fin (3 * pi) - np_arccos x4 - np_arccos x5 - Fin (a_g34 exc) - Fin (a_23d exc)"
    by (auto simp add: t4_def a_f3h_def a_h3g_def split: sum.splits)
  from arg_a_f3h_returned [OF x4] obtain x3 where "arg_a_efh exc state = Inr x3" by auto
  with x4 x5 q show ?thesis by blast
qed

lemma returned_angles_nan:
  assumes "exc_points exc state gos = Inr ps"
  shows "\<exists>y1 y2 y3 y4 y5 q2 q3 q4.
           arg_a_a1b exc state = Inr y1 \<and> arg_a_c2d exc state = Inr y2
         \<and> arg_a_efh exc state = Inr y3 \<and> arg_a_f3h exc state = Inr y4
         \<and> arg_a_h3g exc state = Inr y5
         \<and> joint_angles exc state = Inr (state ! 3, q2, q3, q4)
         \<and> (q2 = NaN \<longleftrightarrow> \<not> in_domain y1)
         \<and> (q3 = NaN \<longleftrightarrow> \<not> in_domain y2)
         \<and> (q4 = NaN \<longleftrightarrow> \<not> (in_domain y3 \<and> in_domain y4 \<and> in_domain y5))
         \<and> (q2 = NaN \<longrightarrow> ps ! 3 = (NaN, NaN, NaN) \<and> ps ! 4 = (NaN, NaN, NaN)
                           \<and> ps ! 5 = (NaN, NaN, NaN))
         \<and> (q3 = NaN \<longrightarrow> ps ! 4 = (NaN, NaN, NaN) \<and> ps ! 5 = (NaN, NaN, NaN))
         \<and> (q4 = NaN \<longrightarrow> ps ! 5 = (NaN, NaN, NaN))"
proof -
  from assms obtain q1 q2 q3 q4 where
    ja: "joint_angles exc state = Inr (q1, q2, q3, q4)"
    and ps: "ps = link_points exc gos q1 q2 q3 q4"
    by (auto simp add: exc_points_def split: sum.splits)
  from joint_angles_components [OF ja] have
    q1: "q1 = state ! 3" and r2: "t2 exc state = Inr q2"
    and r3: "t3 exc state = Inr q3" and r4: "t4 exc state = Inr q4"
    by simp_all
  from t2_returned [OF r2] obtain y1 where
    y1: "arg_a_a1b exc state = Inr y1"
    and q2: "q2 = np_arccos y1 - Fin (a_b12 exc) - Fin (a_a1x1 exc)" by auto
  from t3_returned [OF r3] obtain y2 where
    y2: "arg_a_c2d exc state = Inr y2"
    and q3: "q3 = Fin (3 * pi - a_12c exc) - np_arccos y2 - Fin (a_d23 exc)" by auto
  from t4_returned [OF r4] obtain y3 y4 y5 where
    y3: "arg_a_efh exc state = Inr y3" and y4: "arg_a_f3h exc state = Inr y4"
    and y5: "arg_a_h3g exc state = Inr y5"
    and q4: "q4 = Fin (3 * pi) - np_arccos y4 - np_arccos y5 - Fin (a_g34 exc) - Fin (a_23d exc)"
    by auto
  have n2: "q2 = NaN \<longleftrightarrow> \<not> in_domain y1"
    by (simp add: q2 np_arccos_nan_iff)
  have n3: "q3 = NaN \<longleftrightarrow> \<not> in_domain y2"
    by (simp add: q3 np_arccos_nan_iff)
  have "\<not> in_domain y3 \<Longrightarrow> \<not> in_domain y4"
    using bucket_nan_chain [OF y3 _ y4] by (auto simp add: in_domain_def)
  then have n4: "q4 = NaN \<longleftrightarrow> \<not> (in_domain y3 \<and> in_domain y4 \<and> in_domain y5)"
    by (auto simp add: q4 np_arccos_nan_iff)
  have p2: "q2 = NaN \<longrightarrow> ps ! 3 = (NaN, NaN, NaN) \<and> ps ! 4 = (NaN, NaN, NaN)
                           \<and> ps ! 5 = (NaN, NaN, NaN)"
    unfolding ps by (simp add: link_points_nan)
  have p3: "q3 = NaN \<longrightarrow> ps ! 4 = (NaN, NaN, NaN) \<and> ps ! 5 = (NaN, NaN, NaN)"
    unfolding ps by (simp add: link_points_nan)
  have p4: "q4 = NaN \<longrightarrow> ps ! 5 = (NaN, NaN, NaN)"
    unfolding ps by (simp add: link_points_nan)
  from ja q1 have ja': "joint_angles exc state = Inr (state ! 3, q2, q3, q4)" by simp
  show ?thesis
    using y1 y2 y3 y4 y5 ja' n2 n3 n4 p2 p3 p4 by blast
qed

text \<open>
  Claim C1 says that every arccos argument in the closed interval from -1 to 1 gives a
  successful computation and that an argument outside it makes the computation fail with
  a domain error, never sending a \<open>nan\<close> angle into the positions. The source calls
  \<open>np.arccos\<close> with no guard, and both halves fail. With the boom cylinder of the
  concrete geometry extended by 5 the argument is \<open>-25/8\<close>; the call returns six points
  and the last three are \<open>nan\<close> in every coordinate. On the table with the flat bucket
  triangle and the zero state every arccos argument that is computed (0, 0 and 1) lies
  in the domain, and the call fails with \<open>ZeroDivisionError\<close> at the next division.
\<close>

theorem arccos_domain_counterexample:
  "arg_a_a1b exc_demo [5, 0, 0, 0] = Inr (Fin (- (25 / 8)))
   \<and> \<not> in_domain (Fin (- (25 / 8)))
   \<and> exc_points exc_demo [5, 0, 0, 0] (171 / 10) =
       Inr [(Fin 0, Fin 0, Fin 0), (Fin 0, Fin 0, Fin (171 / 10)), (Fin 1, Fin 0, Fin (171 / 10)),
            (NaN, NaN, NaN), (NaN, NaN, NaN), (NaN, NaN, NaN)]
   \<and> arg_a_a1b exc_flat [0, 0, 0, 0] = Inr (Fin 0)
   \<and> arg_a_c2d exc_flat [0, 0, 0, 0] = Inr (Fin 0)
   \<and> arg_a_efh exc_flat [0, 0, 0, 0] = Inr (Fin 1)
   \<and> in_domain (Fin 0) \<and> in_domain (Fin 1)
   \<and> arg_a_f3h exc_flat [0, 0, 0, 0] = Inl ZeroDivisionError
   \<and> exc_points exc_flat [0, 0, 0, 0] (171 / 10) = Inl ZeroDivisionError"
  using demo_nan_arg demo_nan_points flat_args flat_arg_a_f3h flat_points
  by (simp add: in_domain_def)

text \<open>
  Claim C1 as amended. There is no domain error: \<open>np.arccos\<close> is called with no guard.
  For every geometry table and state of finite entries, at each of the five arccos lines,
  once the argument of the line has been computed, the line itself raises nothing: it
  gives a finite angle when the argument lies in the closed interval from -1 to 1,
  boundaries included, and \<open>nan\<close> when it lies outside. Whenever the call returns its
  points, the boom angle is \<open>nan\<close> exactly when the boom argument is out of the domain,
  the stick angle exactly when the stick argument is, and the bucket angle exactly when
  one of the three bucket arguments is; and the \<open>nan\<close> reaches the positions: a \<open>nan\<close>
  boom angle makes the link ends \<open>o2\<close>, \<open>o3\<close>, \<open>o4\<close> \<open>nan\<close> in every coordinate, a
  \<open>nan\<close> stick angle \<open>o3\<close> and \<open>o4\<close>, and a \<open>nan\<close> bucket angle \<open>o4\<close>.
\<close>

theorem arccos_out_of_domain_gives_nan:
  "(arg_a_a1b exc state = Inr x1 \<longrightarrow>
      (\<exists>a. a_a1b exc state = Inr a \<and> (a = NaN \<longleftrightarrow> \<not> in_domain x1)))
 \<and> (arg_a_c2d exc state = Inr x2 \<longrightarrow>
      (\<exists>a. a_c2d exc state = Inr a \<and> (a = NaN \<longleftrightarrow> \<not> in_domain x2)))
 \<and> (arg_a_efh exc state = Inr x3 \<longrightarrow>
      (\<exists>a. a_efh exc state = Inr a \<and> (a = NaN \<longleftrightarrow> \<not> in_domain x3)))
 \<and> (arg_a_f3h exc state = Inr x4 \<longrightarrow>
      (\<exists>a. a_f3h exc state = Inr a \<and> (a = NaN \<longleftrightarrow> \<not> in_domain x4)))
 \<and> (arg_a_h3g exc state = Inr x5 \<longrightarrow>
      (\<exists>a. a_h3g exc state = Inr a \<and> (a = NaN \<longleftrightarrow> \<not> in_domain x5)))
 \<and> (exc_points exc state gos = Inr ps \<longrightarrow>
      (\<exists>y1 y2 y3 y4 y5 q2 q3 q4.
           arg_a_a1b exc state = Inr y1 \<and> arg_a_c2d exc state = Inr y2
         \<and> arg_a_efh exc state = Inr y3 \<and> arg_a_f3h exc state = Inr y4
         \<and> arg_a_h3g exc state = Inr y5
         \<and> joint_angles exc state = Inr (state ! 3, q2, q3, q4)
         \<and> (q2 = NaN \<longleftrightarrow> \<not> in_domain y1)
         \<and> (q3 = NaN \<longleftrightarrow> \<not> in_domain y2)
         \<and> (q4 = NaN \<longleftrightarrow> \<not> (in_domain y3 \<and> in_domain y4 \<and> in_domain y5))
         \<and> (q2 = NaN \<longrightarrow> ps ! 3 = (NaN, NaN, NaN) \<and> ps ! 4 = (NaN, NaN, NaN)
                           \<and> ps ! 5 = (NaN, NaN, NaN))
         \<and> (q3 = NaN \<longrightarrow> ps ! 4 = (NaN, NaN, NaN) \<and> ps ! 5 = (NaN, NaN, NaN))
         \<and> (q4 = NaN \<longrightarrow> ps ! 5 = (NaN, NaN, NaN))))"
proof -
  have l1: "arg_a_a1b exc state = Inr x1 \<longrightarrow>
      (\<exists>a. a_a1b exc state = Inr a \<and> (a = NaN \<longleftrightarrow> \<not> in_domain x1))"
    by (simp add: a_a1b_def np_arccos_nan_iff)
  have l2: "arg_a_c2d exc state = Inr x2 \<longrightarrow>
      (\<exists>a. a_c2d exc state = Inr a \<and> (a = NaN \<longleftrightarrow> \<not> in_domain x2))"
    by (simp add: a_c2d_def np_arccos_nan_iff)
  have l3: "arg_a_efh exc state = Inr x3 \<longrightarrow>
      (\<exists>a. a_efh exc state = Inr a \<and> (a = NaN \<longleftrightarrow> \<not> in_domain x3))"
    by (simp add: a_efh_def np_arccos_nan_iff)
  have l4: "arg_a_f3h exc state = Inr x4 \<longrightarrow>
      (\<exists>a. a_f3h exc state = Inr a \<and> (a = NaN \<longleftrightarrow> \<not> in_domain x4))"
    by (simp add: a_f3h_def np_arccos_nan_iff)
  have l5: "arg_a_h3g exc state = Inr x5 \<longrightarrow>
      (\<exists>a. a_h3g exc state = Inr a \<and> (a = NaN \<longleftrightarrow> \<not> in_domain x5))"
    by (simp add: a_h3g_def np_arccos_nan_iff)
  show ?thesis
    using l1 l2 l3 l4 l5 returned_angles_nan [of exc state gos ps] by blast
qed

theorem arccos_out_of_domain_gives_nan_witness:
  "arg_a_a1b exc_demo [5, 5, 5, 0] = Inr (Fin (- (25 / 8)))
   \<and> arg_a_c2d exc_demo [5, 5, 5, 0] = Inr (Fin (- (25 / 8)))
   \<and> arg_a_efh exc_demo [5, 5, 5, 0] = Inr (Fin (- 29))
   \<and> arg_a_f3h exc_demo [5, 5, 5, 0] = Inr NaN
   \<and> arg_a_h3g exc_demo [5, 5, 5, 0] = Inr NaN
   \<and> exc_points exc_demo [5, 5, 5, 0] (171 / 10) =
       Inr [(Fin 0, Fin 0, Fin 0), (Fin 0, Fin 0, Fin (171 / 10)), (Fin 1, Fin 0, Fin (171 / 10)),
            (NaN, NaN, NaN), (NaN, NaN, NaN), (NaN, NaN, NaN)]
   \<and> joint_angles exc_demo [5, 5, 5, 0] = Inr (0, NaN, NaN, NaN)
   \<and> a_a1b exc_demo [5, 5, 5, 0] = Inr NaN
   \<and> a_c2d exc_demo [5, 5, 5, 0] = Inr NaN
   \<and> a_efh exc_demo [5, 5, 5, 0] = Inr NaN
   \<and> a_f3h exc_demo [5, 5, 5, 0] = Inr NaN
   \<and> a_h3g exc_demo [5, 5, 5, 0] = Inr NaN
   \<and> arg_a_efh exc_demo [0, 0, 0, 0] = Inr (Fin 1)
   \<and> in_domain (Fin 1)
   \<and> a_efh exc_demo [0, 0, 0, 0] = Inr (Fin 0)"
proof -
  have out: "\<not> in_domain (Fin (- (25 / 8)))" "\<not> in_domain (Fin (- 29))" "\<not> in_domain NaN"
    and inn: "in_domain (Fin 1)"
    by (simp_all add: in_domain_def)
  have nan: "a_a1b exc_demo [5, 5, 5, 0] = Inr NaN" "a_c2d exc_demo [5, 5, 5, 0] = Inr NaN"
    "a_efh exc_demo [5, 5, 5, 0] = Inr NaN" "a_f3h exc_demo [5, 5, 5, 0] = Inr NaN"
    "a_h3g exc_demo [5, 5, 5, 0] = Inr NaN"
    using arccos_out_of_domain_gives_nan [of exc_demo "[5, 5, 5, 0]" "Fin (- (25 / 8))"
        "Fin (- (25 / 8))" "Fin (- 29)" NaN NaN "171 / 10"
        "[(Fin 0, Fin 0, Fin 0), (Fin 0, Fin 0, Fin (171 / 10)), (Fin 1, Fin 0, Fin (171 / 10)),
          (NaN, NaN, NaN), (NaN, NaN, NaN), (NaN, NaN, NaN)]"]
      demo_all_nan_args demo_all_nan_args2 out
    by auto
  have fin: "a_efh exc_demo [0, 0, 0, 0] = Inr (Fin 0)"
    using arccos_out_of_domain_gives_nan [of exc_demo "[0, 0, 0, 0]" "Fin 0" "Fin 0" "Fin 1"
        "Fin 1" "Fin 1" "171 / 10" "[]"] demo_args(3) inn
    by (auto simp add: a_efh_def)
  show ?thesis
    using demo_all_nan_args demo_all_nan_args2 demo_all_nan_points demo_all_nan_angles
      nan fin demo_args(3) inn
    by simp
qed

section \<open>Number of points and segments (claim C2)\<close>

text \<open>
  Claim C2 says that the solver outputs exactly 5 positions, connected as exactly 4
  line segments. On the concrete geometry with the zero state the source computes six
  points (\<open>gnd\<close>, \<open>base\<close>, \<open>o1\<close>, \<open>o2\<close>, \<open>o3\<close>, \<open>o4\<close>) and builds five lines from them.
\<close>

theorem five_positions_counterexample:
  "exc_points exc_demo [0, 0, 0, 0] (171 / 10) =
     Inr [(Fin 0, Fin 0, Fin 0), (Fin 0, Fin 0, Fin (171 / 10)), (Fin 1, Fin 0, Fin (171 / 10)),
          (Fin 1, Fin 0, Fin (191 / 10)), (Fin 4, Fin 0, Fin (191 / 10)),
          (Fin 8, Fin 0, Fin (191 / 10))]
   \<and> length (exc_lines
       [(Fin 0, Fin 0, Fin 0), (Fin 0, Fin 0, Fin (171 / 10)), (Fin 1, Fin 0, Fin (171 / 10)),
        (Fin 1, Fin 0, Fin (191 / 10)), (Fin 4, Fin 0, Fin (191 / 10)),
        (Fin 8, Fin 0, Fin (191 / 10))]) = 5"
  using demo_points by simp


text \<open>
  Claim C2 as amended: whenever the computation returns, it returns an ordered sequence
  of exactly 6 positions, the ground at the origin, the base at the origin plus the
  ground offset on z, and four link ends; they are connected as exactly 5 line segments
  (ground to base, base to \<open>o1\<close>, \<open>o1\<close> to \<open>o2\<close>, \<open>o2\<close> to \<open>o3\<close>, \<open>o3\<close> to \<open>o4\<close>),
  and \<open>draw_exc\<close> plots exactly these five, in this order.
\<close>

theorem six_points_five_segments:
  assumes "exc_points exc state gos = Inr ps"
  shows "length ps = 6
       \<and> ps ! 0 = (Fin 0, Fin 0, Fin 0) \<and> ps ! 1 = (Fin 0, Fin 0, Fin gos)
       \<and> exc_lines ps = [zip_points (ps ! 0) (ps ! 1), zip_points (ps ! 1) (ps ! 2),
                         zip_points (ps ! 2) (ps ! 3), zip_points (ps ! 3) (ps ! 4),
                         zip_points (ps ! 4) (ps ! 5)]
       \<and> (\<exists>ax'. draw_exc ax exc state lw lock_axes rotate_view gos = Inr ax'
               \<and> plotted ax' = plotted ax @ map (\<lambda>l. (l, lw)) (exc_lines ps))"
proof -
  from exc_points_shape [OF assms] obtain o1 o2 o3 o4 where
    shape: "ps = [(Fin 0, Fin 0, Fin 0), (Fin 0, Fin 0, Fin gos), o1, o2, o3, o4]" by auto
  show ?thesis
    using draw_exc_plotted [OF assms, of ax lw lock_axes rotate_view] by (simp add: shape)
qed

theorem six_points_five_segments_witness:
  "exc_points exc_demo [0, 0, 0, 0] (171 / 10) =
     Inr [(Fin 0, Fin 0, Fin 0), (Fin 0, Fin 0, Fin (171 / 10)), (Fin 1, Fin 0, Fin (171 / 10)),
          (Fin 1, Fin 0, Fin (191 / 10)), (Fin 4, Fin 0, Fin (191 / 10)),
          (Fin 8, Fin 0, Fin (191 / 10))]
   \<and> (\<exists>ax'. draw_exc \<lparr>plotted = [], xlim3d = None, ylim3d = None, zlim3d = None, view = None\<rparr>
                exc_demo [0, 0, 0, 0] 2 True True (171 / 10) = Inr ax'
            \<and> map fst (plotted ax') =
                [((Fin 0, Fin 0), (Fin 0, Fin 0), (Fin 0, Fin (171 / 10))),
                 ((Fin 0, Fin 1), (Fin 0, Fin 0), (Fin (171 / 10), Fin (171 / 10))),
                 ((Fin 1, Fin 1), (Fin 0, Fin 0), (Fin (171 / 10), Fin (191 / 10))),
                 ((Fin 1, Fin 4), (Fin 0, Fin 0), (Fin (191 / 10), Fin (191 / 10))),
                 ((Fin 4, Fin 8), (Fin 0, Fin 0), (Fin (191 / 10), Fin (191 / 10)))])"
  using demo_points
    six_points_five_segments [OF demo_points,
      of "\<lparr>plotted = [], xlim3d = None, ylim3d = None, zlim3d = None, view = None\<rparr>" 2 True True]
  by auto


section \<open>The chain formula (claim C3)\<close>

lemma sum_upto_2: "(\<Sum>i = Suc 0..2. f i) = (f (Suc 0) + f 2 :: real)"
proof -
  have "{Suc 0..2} = {Suc 0, 2}" by auto
  then show ?thesis by simp
qed

lemma sum_upto_3: "(\<Sum>i = Suc 0..3. f i) = (f (Suc 0) + f 2 + f 3 :: real)"
proof -
  have "{Suc 0..3} = {Suc 0, 2, 3}" by auto
  then show ?thesis by simp
qed

lemma sum_upto_4: "(\<Sum>i = Suc 0..4. f i) = (f (Suc 0) + f 2 + f 3 + f 4 :: real)"
proof -
  have "{Suc 0..4} = {Suc 0, 2, 3, 4}" by auto
  then show ?thesis by simp
qed

lemma link_end_1:
  "link_end [l1, l2, l3, l4] [q2, q3, q4] q1 gos (Suc 0) = (Fin (l1 * cos q1), Fin (l1 * sin q1), Fin gos)"
  by (simp add: link_end_def planar_reach_def planar_rise_def theta_def)

lemma link_end_2:
  "link_end [l1, l2, l3, l4] [q2, q3, q4] q1 gos 2 =
     (Fin ((l2 * cos q2 + l1) * cos q1), Fin ((l2 * cos q2 + l1) * sin q1), Fin (l2 * sin q2 + gos))"
  by (simp add: link_end_def planar_reach_def planar_rise_def theta_def sum_upto_2 add.commute)

lemma link_end_3:
  "link_end [l1, l2, l3, l4] [q2, q3, q4] q1 gos 3 =
     (Fin ((l2 * cos q2 + l3 * cos (q2 + q3) + l1) * cos q1),
      Fin ((l2 * cos q2 + l3 * cos (q2 + q3) + l1) * sin q1),
      Fin (gos + l2 * sin q2 + l3 * sin (q2 + q3)))"
  by (simp add: link_end_def planar_reach_def planar_rise_def theta_def sum_upto_3
      numeral_3_eq_3 add.commute add.left_commute)

lemma link_end_4:
  "link_end [l1, l2, l3, l4] [q2, q3, q4] q1 gos 4 =
     (Fin ((l4 * cos (q2 + q3 + q4) + l3 * cos (q2 + q3) + l2 * cos q2 + l1) * cos q1),
      Fin ((l4 * cos (q2 + q3 + q4) + l3 * cos (q2 + q3) + l2 * cos q2 + l1) * sin q1),
      Fin (gos + l2 * sin q2 + l3 * sin (q2 + q3) + l4 * sin (q2 + q3 + q4)))"
  by (simp add: link_end_def planar_reach_def planar_rise_def theta_def sum_upto_4
      numeral_3_eq_3 add.commute add.left_commute add.assoc)


text \<open>
  Claim C3: for every state whose joint angles \<open>t\<^sub>2\<close>, \<open>t\<^sub>3\<close>, \<open>t\<^sub>4\<close> are finite, with
  swing angle \<open>t\<^sub>1\<close>, the end of link \<open>k\<close> (for \<open>k\<close> from 1 to 4, at index \<open>k + 1\<close> of
  the result) has \<open>x = (\<Sum>\<^bsub>i\<le>k\<^esub> a\<^sub>i cos \<theta>\<^sub>i) cos t\<^sub>1\<close>,
  \<open>y = (\<Sum>\<^bsub>i\<le>k\<^esub> a\<^sub>i cos \<theta>\<^sub>i) sin t\<^sub>1\<close> and
  \<open>z = gos + \<Sum>\<^bsub>i\<le>k\<^esub> a\<^sub>i sin \<theta>\<^sub>i\<close>, where \<open>\<theta>\<^sub>k\<close> is the sum of the joint angles
  2 to \<open>k\<close>.
\<close>

theorem link_ends_follow_chain_formula:
  assumes ja: "joint_angles exc state = Inr (q1, Fin q2, Fin q3, Fin q4)"
    and k: "1 \<le> k" "k \<le> 4"
  shows "\<exists>ps. exc_points exc state gos = Inr ps
            \<and> ps ! (k + 1) = link_end [a1 exc, a2 exc, a3 exc, a4 exc] [q2, q3, q4] q1 gos k"
proof -
  have pts: "exc_points exc state gos = Inr (link_points exc gos q1 (Fin q2) (Fin q3) (Fin q4))"
    by (simp add: exc_points_def ja)
  from k have "k = 1 \<or> k = 2 \<or> k = 3 \<or> k = 4" by arith
  then show ?thesis
  proof (elim disjE)
    assume "k = 1"
    then show ?thesis by (simp add: pts link_points_fin link_end_1)
  next
    assume "k = 2"
    then show ?thesis by (simp add: pts link_points_fin link_end_2)
  next
    assume "k = 3"
    then show ?thesis by (simp add: pts link_points_fin link_end_3)
  next
    assume "k = 4"
    then show ?thesis by (simp add: pts link_points_fin link_end_4)
  qed
qed


theorem link_ends_follow_chain_formula_witness:
  "joint_angles exc_demo [0, 0, 0, 0] = Inr (0, Fin (pi / 2), Fin (- (pi / 2)), Fin 0)
   \<and> (1::nat) \<le> 4 \<and> (4::nat) \<le> 4
   \<and> (\<exists>ps. exc_points exc_demo [0, 0, 0, 0] (171 / 10) = Inr ps
          \<and> ps ! (4 + 1) = link_end [a1 exc_demo, a2 exc_demo, a3 exc_demo, a4 exc_demo]
                               [pi / 2, - (pi / 2), 0] 0 (171 / 10) 4)"
proof -
  have k: "(1::nat) \<le> 4" "(4::nat) \<le> 4" by simp_all
  from link_ends_follow_chain_formula [OF demo_angles k, of "171 / 10"] demo_angles k
  show ?thesis by blast
qed


section \<open>The law of cosines (claims C4 and C5)\<close>

lemma cyl_triangle:
  assumes "solvable s1 s2 s3"
  shows "py_div (Fin (s1\<^sup>2 + s2\<^sup>2 - s3\<^sup>2)) (Fin (2 * s1 * s2)) = Inr (Fin (law_arg s1 s2 s3))"
    and "np_arccos (Fin (law_arg s1 s2 s3)) = Fin (enclosed_angle s1 s2 s3)"
  using assms by (simp_all add: solvable_def law_arg_def enclosed_angle_def)

lemma a_a1b_spec:
  "solvable (r_o1b exc) (r_o1a exc) (state ! 0 + r_cyl1 exc) \<Longrightarrow>
   a_a1b exc state = Inr (Fin (enclosed_angle (r_o1b exc) (r_o1a exc) (state ! 0 + r_cyl1 exc)))"
  by (simp add: a_a1b_def arg_a_a1b_def r_c1_def cyl_triangle del: py_div.simps np_arccos.simps)

lemma a_c2d_spec:
  "solvable (r_o2c exc) (r_o2d exc) (state ! 1 + r_cyl2 exc) \<Longrightarrow>
   a_c2d exc state = Inr (Fin (enclosed_angle (r_o2c exc) (r_o2d exc) (state ! 1 + r_cyl2 exc)))"
  by (simp add: a_c2d_def arg_a_c2d_def r_c2_def cyl_triangle del: py_div.simps np_arccos.simps)

lemma a_efh_spec:
  "solvable (r_ef exc) (r_fh exc) (state ! 2 + r_cyl3 exc) \<Longrightarrow>
   a_efh exc state = Inr (Fin (enclosed_angle (r_ef exc) (r_fh exc) (state ! 2 + r_cyl3 exc)))"
  by (simp add: a_efh_def arg_a_efh_def r_c3_def cyl_triangle del: py_div.simps np_arccos.simps)

lemma opposite_radicand_nonneg: "0 \<le> s1\<^sup>2 + s2\<^sup>2 - 2 * s1 * s2 * cos (g::real)"
proof -
  have "s1\<^sup>2 + s2\<^sup>2 - 2 * s1 * s2 * cos g = (s1 - s2 * cos g)\<^sup>2 + (s2 * sin g)\<^sup>2"
    by (simp add: power2_diff sin_squared_eq algebra_simps)
  then show ?thesis by simp
qed

lemma r_o3h_spec:
  assumes "solvable (r_ef exc) (r_fh exc) (state ! 2 + r_cyl3 exc)"
  shows "a_hf3 exc state = Inr (Fin (spec_a_hf3 exc (state ! 2)))"
    and "r_o3h exc state = Inr (Fin (spec_r_o3h exc (state ! 2)))"
proof -
  show h: "a_hf3 exc state = Inr (Fin (spec_a_hf3 exc (state ! 2)))"
    by (simp add: a_hf3_def a_efh_spec [OF assms] spec_a_hf3_def)
  have "\<not> (r_o3f exc)\<^sup>2 + (r_fh exc)\<^sup>2 - 2 * r_o3f exc * r_fh exc * cos (spec_a_hf3 exc (state ! 2)) < 0"
    using opposite_radicand_nonneg [of "r_o3f exc" "r_fh exc" "spec_a_hf3 exc (state ! 2)"]
    by simp
  then show "r_o3h exc state = Inr (Fin (spec_r_o3h exc (state ! 2)))"
    by (simp add: r_o3h_def h spec_r_o3h_def opposite_side_def)
qed


text \<open>
  Claim C4: for each of the three cylinders the solver forms the side
  \<open>s3 = extension + cylinder offset\<close>, computes the raw enclosed angle
  \<open>arccos ((s1\<^sup>2 + s2\<^sup>2 - s3\<^sup>2) / (2 s1 s2))\<close> from the two fixed sides of that joint's
  triangle, and combines the raw angle with the fixed angular offsets: the boom angle is
  the raw angle minus \<open>a_b12\<close> and \<open>a_a1x1\<close>, the stick angle is \<open>3\<pi>\<close> minus \<open>a_12c\<close>,
  the raw angle and \<open>a_d23\<close>, and the raw bucket angle enters the bucket solve through
  its supplement \<open>\<pi> - a_dfe - a_efh\<close>. The three triangles are assumed solvable.
\<close>

theorem cylinder_angles_by_law_of_cosines:
  assumes "solvable (r_o1b exc) (r_o1a exc) (state ! 0 + r_cyl1 exc)"
    and "solvable (r_o2c exc) (r_o2d exc) (state ! 1 + r_cyl2 exc)"
    and "solvable (r_ef exc) (r_fh exc) (state ! 2 + r_cyl3 exc)"
  shows "a_a1b exc state = Inr (Fin (enclosed_angle (r_o1b exc) (r_o1a exc) (state ! 0 + r_cyl1 exc)))
       \<and> t2 exc state = Inr (Fin (enclosed_angle (r_o1b exc) (r_o1a exc) (state ! 0 + r_cyl1 exc)
                                   - a_b12 exc - a_a1x1 exc))
       \<and> a_c2d exc state = Inr (Fin (enclosed_angle (r_o2c exc) (r_o2d exc) (state ! 1 + r_cyl2 exc)))
       \<and> t3 exc state = Inr (Fin (3 * pi - a_12c exc
                                   - enclosed_angle (r_o2c exc) (r_o2d exc) (state ! 1 + r_cyl2 exc)
                                   - a_d23 exc))
       \<and> a_efh exc state = Inr (Fin (enclosed_angle (r_ef exc) (r_fh exc) (state ! 2 + r_cyl3 exc)))
       \<and> a_hf3 exc state = Inr (Fin (pi - a_dfe exc
                                   - enclosed_angle (r_ef exc) (r_fh exc) (state ! 2 + r_cyl3 exc)))"
  by (simp add: t2_def t3_def a_hf3_def a_a1b_spec [OF assms(1)] a_c2d_spec [OF assms(2)]
      a_efh_spec [OF assms(3)])


theorem cylinder_angles_by_law_of_cosines_witness:
  "solvable (r_o1b exc_demo) (r_o1a exc_demo) ([0, 0, 0, 0] ! 0 + r_cyl1 exc_demo)
   \<and> solvable (r_o2c exc_demo) (r_o2d exc_demo) ([0, 0, 0, 0] ! 1 + r_cyl2 exc_demo)
   \<and> solvable (r_ef exc_demo) (r_fh exc_demo) ([0, 0, 0, 0] ! 2 + r_cyl3 exc_demo)
   \<and> t2 exc_demo [0, 0, 0, 0] =
       Inr (Fin (enclosed_angle (r_o1b exc_demo) (r_o1a exc_demo) ([0, 0, 0, 0] ! 0 + r_cyl1 exc_demo)
                 - a_b12 exc_demo - a_a1x1 exc_demo))
   \<and> t3 exc_demo [0, 0, 0, 0] =
       Inr (Fin (3 * pi - a_12c exc_demo
                 - enclosed_angle (r_o2c exc_demo) (r_o2d exc_demo) ([0, 0, 0, 0] ! 1 + r_cyl2 exc_demo)
                 - a_d23 exc_demo))
   \<and> a_efh exc_demo [0, 0, 0, 0] =
       Inr (Fin (enclosed_angle (r_ef exc_demo) (r_fh exc_demo) ([0, 0, 0, 0] ! 2 + r_cyl3 exc_demo)))"
  using demo_solvable cylinder_angles_by_law_of_cosines [OF demo_solvable]
  by blast


text \<open>
  Claim C5: the bucket angle is computed in two stages. The enclosed angle \<open>a_efh\<close> is
  recovered by the inverse law of cosines; the diagonal \<open>r_o3h\<close> is the side opposite
  the supplementary angle \<open>\<pi> - a_dfe - a_efh\<close>, by the law of cosines (its square root
  never fails); two more inverse applications give the angles \<open>a_f3h\<close> and \<open>a_h3g\<close>
  that the diagonal subtends; and the bucket angle is \<open>3\<pi>\<close> minus both, minus the
  fixed offsets \<open>a_g34\<close> and \<open>a_23d\<close>. The three triangles are assumed solvable.
\<close>

theorem bucket_angle_two_stage:
  assumes tri: "solvable (r_ef exc) (r_fh exc) (state ! 2 + r_cyl3 exc)"
    and f3h: "solvable (spec_r_o3h exc (state ! 2)) (r_o3f exc) (r_fh exc)"
    and h3g: "solvable (spec_r_o3h exc (state ! 2)) (r_o3g exc) (r_gh exc)"
  shows "a_efh exc state = Inr (Fin (enclosed_angle (r_ef exc) (r_fh exc) (state ! 2 + r_cyl3 exc)))
       \<and> a_hf3 exc state = Inr (Fin (spec_a_hf3 exc (state ! 2)))
       \<and> r_o3h exc state = Inr (Fin (spec_r_o3h exc (state ! 2)))
       \<and> a_f3h exc state = Inr (Fin (enclosed_angle (spec_r_o3h exc (state ! 2)) (r_o3f exc) (r_fh exc)))
       \<and> a_h3g exc state = Inr (Fin (enclosed_angle (spec_r_o3h exc (state ! 2)) (r_o3g exc) (r_gh exc)))
       \<and> t4 exc state = Inr (Fin (spec_t4 exc (state ! 2)))"
proof -
  have f: "a_f3h exc state = Inr (Fin (enclosed_angle (spec_r_o3h exc (state ! 2)) (r_o3f exc) (r_fh exc)))"
    by (simp add: a_f3h_def arg_a_f3h_def r_o3h_spec [OF tri] cyl_triangle [OF f3h] del: py_div.simps np_arccos.simps)
  have g: "a_h3g exc state = Inr (Fin (enclosed_angle (spec_r_o3h exc (state ! 2)) (r_o3g exc) (r_gh exc)))"
    by (simp add: a_h3g_def arg_a_h3g_def r_o3h_spec [OF tri] cyl_triangle [OF h3g] del: py_div.simps np_arccos.simps)
  have t: "t4 exc state = Inr (Fin (spec_t4 exc (state ! 2)))"
    by (simp add: t4_def f g spec_t4_def)
  show ?thesis
    using a_efh_spec [OF tri] r_o3h_spec [OF tri] f g t by simp
qed


theorem bucket_angle_two_stage_witness:
  "solvable (r_ef exc_demo) (r_fh exc_demo) ([0, 0, 0, 0] ! 2 + r_cyl3 exc_demo)
   \<and> solvable (spec_r_o3h exc_demo ([0, 0, 0, 0] ! 2)) (r_o3f exc_demo) (r_fh exc_demo)
   \<and> solvable (spec_r_o3h exc_demo ([0, 0, 0, 0] ! 2)) (r_o3g exc_demo) (r_gh exc_demo)
   \<and> r_o3h exc_demo [0, 0, 0, 0] = Inr (Fin (spec_r_o3h exc_demo ([0, 0, 0, 0] ! 2)))
   \<and> t4 exc_demo [0, 0, 0, 0] = Inr (Fin (spec_t4 exc_demo ([0, 0, 0, 0] ! 2)))"
  using demo_solvable(3) demo_solvable2
    bucket_angle_two_stage [OF demo_solvable(3) demo_solvable2]
  by blast


section \<open>Segment lengths (claim C6)\<close>

lemma unit_seg:
  "(a * cos p * cos q)\<^sup>2 + (a * cos p * sin q)\<^sup>2 + (a * sin p)\<^sup>2 = (a::real)\<^sup>2"
proof -
  have e: "(sin q)\<^sup>2 = 1 - (cos q)\<^sup>2" "(sin p)\<^sup>2 = 1 - (cos p)\<^sup>2"
    by (simp_all add: sin_squared_eq)
  show ?thesis
    by (simp add: e algebra_simps)
qed

lemma seg_len_fin:
  "seg_len (Fin x, Fin y, Fin z) (Fin x', Fin y', Fin z')
     = Fin (sqrt ((x' - x)\<^sup>2 + (y' - y)\<^sup>2 + (z' - z)\<^sup>2))"
  by simp

lemma seg_len_link:
  assumes "0 \<le> a"
    and "x' - x = a * cos p * cos q" "y' - y = a * cos p * sin q" "z' - z = a * sin p"
  shows "seg_len (Fin x, Fin y, Fin z) (Fin x', Fin y', Fin z') = Fin a"
proof -
  have "(x' - x)\<^sup>2 + (y' - y)\<^sup>2 + (z' - z)\<^sup>2 = a\<^sup>2"
    unfolding assms(2-4) by (rule unit_seg)
  then show ?thesis using assms(1) by (simp only: seg_len_fin real_sqrt_abs abs_of_nonneg)
qed


text \<open>
  Claim C6: for every state whose joint angles are finite, and a ground offset and link
  lengths that are not negative, consecutive points are one link apart: the segment
  from the ground to the base has length exactly the ground offset, and the following
  segments have lengths \<open>a1\<close>, \<open>a2\<close>, \<open>a3\<close> (and the last one \<open>a4\<close>).
\<close>

theorem segments_have_link_lengths:
  assumes ja: "joint_angles exc state = Inr (q1, Fin q2, Fin q3, Fin q4)"
    and pos: "0 \<le> gos" "0 \<le> a1 exc" "0 \<le> a2 exc" "0 \<le> a3 exc" "0 \<le> a4 exc"
  shows "\<exists>ps. exc_points exc state gos = Inr ps
            \<and> seg_len (ps ! 0) (ps ! 1) = Fin gos
            \<and> seg_len (ps ! 1) (ps ! 2) = Fin (a1 exc)
            \<and> seg_len (ps ! 2) (ps ! 3) = Fin (a2 exc)
            \<and> seg_len (ps ! 3) (ps ! 4) = Fin (a3 exc)
            \<and> seg_len (ps ! 4) (ps ! 5) = Fin (a4 exc)"
proof -
  let ?ps = "link_points exc gos q1 (Fin q2) (Fin q3) (Fin q4)"
  have pts: "exc_points exc state gos = Inr ?ps"
    by (simp add: exc_points_def ja)
  have s0: "seg_len (?ps ! 0) (?ps ! 1) = Fin gos"
    using pos(1) by (simp add: link_points_fin)
  have s1: "seg_len (?ps ! 1) (?ps ! 2) = Fin (a1 exc)"
    unfolding link_points_fin
    using seg_len_link [OF pos(2), of "a1 exc * cos q1" 0 0 q1 "a1 exc * sin q1" 0 gos gos]
    by simp
  have s2: "seg_len (?ps ! 2) (?ps ! 3) = Fin (a2 exc)"
    unfolding link_points_fin
    using seg_len_link [OF pos(3), of "(a2 exc * cos q2 + a1 exc) * cos q1" "a1 exc * cos q1" q2 q1
        "(a2 exc * cos q2 + a1 exc) * sin q1" "a1 exc * sin q1" "a2 exc * sin q2 + gos" gos]
    by (simp add: algebra_simps)
  have s3: "seg_len (?ps ! 3) (?ps ! 4) = Fin (a3 exc)"
    unfolding link_points_fin
    using seg_len_link [OF pos(4),
        of "(a2 exc * cos q2 + a3 exc * cos (q2 + q3) + a1 exc) * cos q1"
           "(a2 exc * cos q2 + a1 exc) * cos q1" "q2 + q3" q1
           "(a2 exc * cos q2 + a3 exc * cos (q2 + q3) + a1 exc) * sin q1"
           "(a2 exc * cos q2 + a1 exc) * sin q1"
           "gos + a2 exc * sin q2 + a3 exc * sin (q2 + q3)" "a2 exc * sin q2 + gos"]
    by (simp add: algebra_simps)
  have s4: "seg_len (?ps ! 4) (?ps ! 5) = Fin (a4 exc)"
    unfolding link_points_fin
    using seg_len_link [OF pos(5),
        of "(a4 exc * cos (q2 + q3 + q4) + a3 exc * cos (q2 + q3) + a2 exc * cos q2 + a1 exc) * cos q1"
           "(a2 exc * cos q2 + a3 exc * cos (q2 + q3) + a1 exc) * cos q1" "q2 + q3 + q4" q1
           "(a4 exc * cos (q2 + q3 + q4) + a3 exc * cos (q2 + q3) + a2 exc * cos q2 + a1 exc) * sin q1"
           "(a2 exc * cos q2 + a3 exc * cos (q2 + q3) + a1 exc) * sin q1"
           "gos + a2 exc * sin q2 + a3 exc * sin (q2 + q3) + a4 exc * sin (q2 + q3 + q4)"
           "gos + a2 exc * sin q2 + a3 exc * sin (q2 + q3)"]
    by (simp add: algebra_simps)
  show ?thesis using pts s0 s1 s2 s3 s4 by blast
qed


theorem segments_have_link_lengths_witness:
  "joint_angles exc_demo [0, 0, 0, 0] = Inr (0, Fin (pi / 2), Fin (- (pi / 2)), Fin 0)
   \<and> (0::real) \<le> 171 / 10
   \<and> 0 \<le> a1 exc_demo \<and> 0 \<le> a2 exc_demo \<and> 0 \<le> a3 exc_demo \<and> 0 \<le> a4 exc_demo
   \<and> (\<exists>ps. exc_points exc_demo [0, 0, 0, 0] (171 / 10) = Inr ps
          \<and> seg_len (ps ! 0) (ps ! 1) = Fin (171 / 10)
          \<and> seg_len (ps ! 1) (ps ! 2) = Fin 1
          \<and> seg_len (ps ! 2) (ps ! 3) = Fin 2
          \<and> seg_len (ps ! 3) (ps ! 4) = Fin 3
          \<and> seg_len (ps ! 4) (ps ! 5) = Fin 4)"
proof -
  have g: "(0::real) \<le> 171 / 10" by simp
  have l: "0 \<le> a1 exc_demo" "0 \<le> a2 exc_demo" "0 \<le> a3 exc_demo" "0 \<le> a4 exc_demo"
    by (simp_all add: exc_demo_def)
  have v: "a1 exc_demo = 1" "a2 exc_demo = 2" "a3 exc_demo = 3" "a4 exc_demo = 4"
    by (simp_all add: exc_demo_def)
  from segments_have_link_lengths [OF demo_angles g l] demo_angles g l
  show ?thesis unfolding v by blast
qed


section \<open>Swing (claim C7)\<close>

lemma rot_cos: "X * Fin (cos (q + d)) = X * Fin (cos q) * Fin (cos d) - X * Fin (sin q) * Fin (sin d)"
  by (cases X) (simp_all add: cos_add algebra_simps)

lemma rot_sin: "X * Fin (sin (q + d)) = X * Fin (cos q) * Fin (sin d) + X * Fin (sin q) * Fin (cos d)"
  by (cases X) (simp_all add: sin_add algebra_simps)

lemma link_points_swing:
  "link_points exc gos (q1 + d) q2 q3 q4 = map (rot_z d) (link_points exc gos q1 q2 q3 q4)"
  by (simp add: link_points_def Let_def rot_cos rot_sin)


text \<open>
  Claim C7: for every state on which the computation returns and every angle \<open>d\<close>,
  adding \<open>d\<close> to the swing entry and keeping the three cylinder extensions leaves the
  z coordinate of every returned point as it was and rotates every (x, y) pair by
  exactly \<open>d\<close> about the vertical axis through the origin.
\<close>

theorem swing_rotates_rigidly:
  assumes "exc_points exc state gos = Inr ps"
  shows "exc_points exc (state[3 := state ! 3 + d]) gos = Inr (map (rot_z d) ps)"
proof -
  from assms obtain q1 q2 q3 q4 where
    ja: "joint_angles exc state = Inr (q1, q2, q3, q4)"
    and ps: "ps = link_points exc gos q1 q2 q3 q4"
    by (auto simp add: exc_points_def split: sum.splits)
  show ?thesis
    by (simp add: exc_points_def joint_angles_swing [OF ja] ps link_points_swing)
qed


theorem swing_rotates_rigidly_witness:
  "exc_points exc_demo [0, 0, 0, 0] (171 / 10) =
     Inr [(Fin 0, Fin 0, Fin 0), (Fin 0, Fin 0, Fin (171 / 10)), (Fin 1, Fin 0, Fin (171 / 10)),
          (Fin 1, Fin 0, Fin (191 / 10)), (Fin 4, Fin 0, Fin (191 / 10)),
          (Fin 8, Fin 0, Fin (191 / 10))]
   \<and> exc_points exc_demo [0, 0, 0, pi / 2] (171 / 10) =
     Inr [(Fin 0, Fin 0, Fin 0), (Fin 0, Fin 0, Fin (171 / 10)), (Fin 0, Fin 1, Fin (171 / 10)),
          (Fin 0, Fin 1, Fin (191 / 10)), (Fin 0, Fin 4, Fin (191 / 10)),
          (Fin 0, Fin 8, Fin (191 / 10))]"
  using demo_points swing_rotates_rigidly [OF demo_points, of "pi / 2"]
  by simp


section \<open>Which entry each angle depends on (claim C9)\<close>

text \<open>
  Claim C9: the boom angle depends on \<open>state[0]\<close> only, the stick angle on \<open>state[1]\<close>
  only, the bucket angle on \<open>state[2]\<close> only and the swing angle on \<open>state[3]\<close> only.
  So two states that differ in the swing entry alone have the same boom, stick and
  bucket angles, and two states that differ in the cylinder extensions alone have the
  same swing angle.
\<close>

theorem angle_noninterference:
  assumes "joint_angles exc state = Inr (q1, q2, q3, q4)"
    and "joint_angles exc state' = Inr (p1, p2, p3, p4)"
  shows "(state ! 0 = state' ! 0 \<longrightarrow> q2 = p2)
       \<and> (state ! 1 = state' ! 1 \<longrightarrow> q3 = p3)
       \<and> (state ! 2 = state' ! 2 \<longrightarrow> q4 = p4)
       \<and> (state ! 3 = state' ! 3 \<longrightarrow> q1 = p1)"
  using joint_angles_components [OF assms(1)] joint_angles_components [OF assms(2)]
    t2_only_boom [of state state' exc] t3_only_stick [of state state' exc]
    t4_only_bucket [of state state' exc]
  by auto


theorem angle_noninterference_witness:
  "joint_angles exc_demo [0, 0, 0, 0] = Inr (0, Fin (pi / 2), Fin (- (pi / 2)), Fin 0)
   \<and> joint_angles exc_demo [0, 0, 0, 1] = Inr (1, Fin (pi / 2), Fin (- (pi / 2)), Fin 0)
   \<and> joint_angles exc_demo [2, 0, 0, 0] = Inr (0, Fin pi, Fin (- (pi / 2)), Fin 0)
   \<and> [0, 0, 0, 0::real] ! 0 = [0, 0, 0, 1] ! 0
   \<and> [0, 0, 0, 0::real] ! 1 = [0, 0, 0, 1] ! 1
   \<and> [0, 0, 0, 0::real] ! 2 = [0, 0, 0, 1] ! 2
   \<and> [0, 0, 0, 0::real] ! 3 = [2, 0, 0, 0] ! 3"
  using demo_angles demo_angles_swing demo_angles_boom
    angle_noninterference [OF demo_angles demo_angles_swing]
    angle_noninterference [OF demo_angles demo_angles_boom]
  by simp


section \<open>Ground and base (claim C10)\<close>

text \<open>
  Claim C10: for every state on which the computation returns, in the domain of the
  arccos or not, the first two points are the ground, at (0, 0, 0), and the base, at
  (0, 0, \<open>gnd_offset\<close>). They depend on no entry of the state and on no entry of the
  geometry table: \<open>gnd_offset\<close> is a parameter of the call, and a call that leaves it
  out draws its first line from (0, 0, 0) to (0, 0, 17.1).
\<close>

theorem ground_and_base_constant:
  assumes "exc_points exc state gos = Inr ps"
  shows "ps ! 0 = (Fin 0, Fin 0, Fin 0) \<and> ps ! 1 = (Fin 0, Fin 0, Fin gos)
       \<and> (gos = 171 / 10 \<longrightarrow>
            (\<exists>ax'. draw_exc_default ax exc state = Inr ax'
                 \<and> fst (plotted ax' ! length (plotted ax))
                     = zip_points (Fin 0, Fin 0, Fin 0) (Fin 0, Fin 0, Fin (171 / 10))))"
proof -
  from exc_points_shape [OF assms] obtain o1 o2 o3 o4 where
    shape: "ps = [(Fin 0, Fin 0, Fin 0), (Fin 0, Fin 0, Fin gos), o1, o2, o3, o4]" by auto
  have "\<exists>ax'. draw_exc_default ax exc state = Inr ax'
                 \<and> fst (plotted ax' ! length (plotted ax))
                     = zip_points (Fin 0, Fin 0, Fin 0) (Fin 0, Fin 0, Fin (171 / 10))"
    if "gos = 171 / 10"
  proof -
    from draw_exc_plotted [OF assms, of ax 2 True True] that obtain ax' where
      d: "draw_exc_default ax exc state = Inr ax'"
      and p: "plotted ax' = plotted ax @ map (\<lambda>l. (l, 2)) (exc_lines ps)"
      by (auto simp add: draw_exc_default_def)
    have "fst (plotted ax' ! length (plotted ax))
            = zip_points (Fin 0, Fin 0, Fin 0) (Fin 0, Fin 0, Fin (171 / 10))"
      using that by (simp add: p shape nth_append)
    with d show ?thesis by blast
  qed
  then show ?thesis by (simp add: shape)
qed

theorem ground_and_base_constant_witness:
  "exc_points exc_demo [5, 0, 0, 0] (171 / 10) =
       Inr [(Fin 0, Fin 0, Fin 0), (Fin 0, Fin 0, Fin (171 / 10)), (Fin 1, Fin 0, Fin (171 / 10)),
            (NaN, NaN, NaN), (NaN, NaN, NaN), (NaN, NaN, NaN)]
   \<and> [(Fin 0, Fin 0, Fin 0), (Fin 0, Fin 0, Fin (171 / 10)), (Fin 1, Fin 0, Fin (171 / 10)),
            (NaN, NaN, NaN), (NaN, NaN, NaN), (NaN, NaN, NaN)] ! 0 = (Fin 0, Fin 0, Fin 0)
   \<and> [(Fin 0, Fin 0, Fin 0), (Fin 0, Fin 0, Fin (171 / 10)), (Fin 1, Fin 0, Fin (171 / 10)),
            (NaN, NaN, NaN), (NaN, NaN, NaN), (NaN, NaN, NaN)] ! 1 = (Fin 0, Fin 0, Fin (171 / 10))
   \<and> (\<exists>ax'. draw_exc_default
               \<lparr>plotted = [], xlim3d = None, ylim3d = None, zlim3d = None, view = None\<rparr>
               exc_demo [5, 0, 0, 0] = Inr ax'
          \<and> fst (plotted ax' ! 0) = ((Fin 0, Fin 0), (Fin 0, Fin 0), (Fin 0, Fin (171 / 10))))"
  using demo_nan_points
    ground_and_base_constant [OF demo_nan_points,
      of "\<lparr>plotted = [], xlim3d = None, ylim3d = None, zlim3d = None, view = None\<rparr>"]
  by simp


end
